theory Spec2Isabelle
  imports Main "HOL-Library.Monad_Syntax"
begin

section \<open>Memory model\<close>

text \<open>
  Both classes of the repository, \<open>OrderStatisticTree<T>\<close> (ost.h) and \<open>POMTree\<close>
  (pom.h), are red-black trees built from heap-allocated nodes that point to each other
  (\<open>left\<close>, \<open>right\<close>, \<open>parent\<close>) and share one sentinel node \<open>nil\<close>, whose
  \<open>parent\<close> and \<open>color\<close> fields the code also writes. The model keeps this: a tree is a
  root pointer and a store of nodes, a pointer is an index into the store, and the sentinel
  is the node at index 0 (allocated first by the constructor). A \<open>nullptr\<close> link of a freshly
  constructed node is overwritten before it is read and is written as 0 here.
  \<open>delete z\<close> leaves the store as it is: the cell is never reached again.

  \<open>OSTNode<T>\<close> and \<open>POMNode\<close> have the same four balancing fields; they are the base record
  \<open>RBNode\<close>, which each node type extends with its own payload and summary, so that the
  rotations and fix-ups, which are the same text in both headers, are written once over
  the base record.
\<close>

datatype Color = RED | BLACK

record RBNode =
  color :: Color
  left :: nat
  right :: nat
  parent :: nat

record 'n Tree =
  root :: nat
  heap :: "'n list"

abbreviation nil :: nat where
  "nil \<equiv> 0"

definition node :: "'n Tree \<Rightarrow> nat \<Rightarrow> 'n" where
  "node t p = heap t ! p"

definition upd :: "'n Tree \<Rightarrow> nat \<Rightarrow> ('n \<Rightarrow> 'n) \<Rightarrow> 'n Tree" where
  "upd t p f = t\<lparr>heap := (heap t)[p := f (heap t ! p)]\<rparr>"

definition set_color :: "('a RBNode_scheme) Tree \<Rightarrow> nat \<Rightarrow> Color \<Rightarrow> ('a RBNode_scheme) Tree" where
  "set_color t p c = upd t p (\<lambda>n. n\<lparr>color := c\<rparr>)"

definition set_left :: "('a RBNode_scheme) Tree \<Rightarrow> nat \<Rightarrow> nat \<Rightarrow> ('a RBNode_scheme) Tree" where
  "set_left t p q = upd t p (\<lambda>n. n\<lparr>left := q\<rparr>)"

definition set_right :: "('a RBNode_scheme) Tree \<Rightarrow> nat \<Rightarrow> nat \<Rightarrow> ('a RBNode_scheme) Tree" where
  "set_right t p q = upd t p (\<lambda>n. n\<lparr>right := q\<rparr>)"

definition set_parent :: "('a RBNode_scheme) Tree \<Rightarrow> nat \<Rightarrow> nat \<Rightarrow> ('a RBNode_scheme) Tree" where
  "set_parent t p q = upd t p (\<lambda>n. n\<lparr>parent := q\<rparr>)"

text \<open>\<open>new\<close>: the fresh node is stored behind the last cell; its pointer is that index.\<close>

definition fresh :: "'n Tree \<Rightarrow> nat" where
  "fresh t = length (heap t)"

definition alloc :: "'n Tree \<Rightarrow> 'n \<Rightarrow> 'n Tree" where
  "alloc t n = t\<lparr>heap := heap t @ [n]\<rparr>"

section \<open>Rotations and fix-ups (ost.h 38-200, pom.h 66-266)\<close>

text \<open>
  The two headers differ, in this part, only in how a rotation repairs the summaries of
  the two nodes it moves: \<open>fix t d u\<close> stands for those closing statements, \<open>d\<close> the node
  that moved down and \<open>u\<close> the node that moved up.
\<close>

definition leftRotate ::
  "(('a RBNode_scheme) Tree \<Rightarrow> nat \<Rightarrow> nat \<Rightarrow> ('a RBNode_scheme) Tree) \<Rightarrow>
   ('a RBNode_scheme) Tree \<Rightarrow> nat \<Rightarrow> ('a RBNode_scheme) Tree" where
  "leftRotate fix t x =
    (let y = right (node t x);
         t = set_right t x (left (node t y));
         t = (if left (node t y) \<noteq> nil then set_parent t (left (node t y)) x else t);
         t = set_parent t y (parent (node t x));
         t = (if parent (node t x) = nil then t\<lparr>root := y\<rparr>
              else if x = left (node t (parent (node t x))) then set_left t (parent (node t x)) y
              else set_right t (parent (node t x)) y);
         t = set_left t y x;
         t = set_parent t x y
     in fix t x y)"

definition rightRotate ::
  "(('a RBNode_scheme) Tree \<Rightarrow> nat \<Rightarrow> nat \<Rightarrow> ('a RBNode_scheme) Tree) \<Rightarrow>
   ('a RBNode_scheme) Tree \<Rightarrow> nat \<Rightarrow> ('a RBNode_scheme) Tree" where
  "rightRotate fix t y =
    (let x = left (node t y);
         t = set_left t y (right (node t x));
         t = (if right (node t x) \<noteq> nil then set_parent t (right (node t x)) y else t);
         t = set_parent t x (parent (node t y));
         t = (if parent (node t y) = nil then t\<lparr>root := x\<rparr>
              else if y = right (node t (parent (node t y))) then set_right t (parent (node t y)) x
              else set_left t (parent (node t y)) x);
         t = set_right t x y;
         t = set_parent t y x
     in fix t y x)"

text \<open>
  \<open>insertFixup\<close>: the loop runs while the parent of \<open>z\<close> is red. A loop of the source is a
  recursive function into \<open>option\<close>; \<open>None\<close> is the loop that never ends.
\<close>

partial_function (option) insertFixup ::
  "(('a RBNode_scheme) Tree \<Rightarrow> nat \<Rightarrow> nat \<Rightarrow> ('a RBNode_scheme) Tree) \<Rightarrow>
   ('a RBNode_scheme) Tree \<Rightarrow> nat \<Rightarrow> ('a RBNode_scheme) Tree option" where
  "insertFixup fix t z =
    (if color (node t (parent (node t z))) = RED then
       (if parent (node t z) = left (node t (parent (node t (parent (node t z))))) then
          (let y = right (node t (parent (node t (parent (node t z))))) in
           if color (node t y) = RED then
             (let t = set_color t (parent (node t z)) BLACK;
                  t = set_color t y BLACK;
                  t = set_color t (parent (node t (parent (node t z)))) RED
              in insertFixup fix t (parent (node t (parent (node t z)))))
           else
             (let inner = (z = right (node t (parent (node t z))));
                  z = (if inner then parent (node t z) else z);
                  t = (if inner then leftRotate fix t z else t);
                  t = set_color t (parent (node t z)) BLACK;
                  t = set_color t (parent (node t (parent (node t z)))) RED;
                  t = rightRotate fix t (parent (node t (parent (node t z))))
              in insertFixup fix t z))
        else
          (let y = left (node t (parent (node t (parent (node t z))))) in
           if color (node t y) = RED then
             (let t = set_color t (parent (node t z)) BLACK;
                  t = set_color t y BLACK;
                  t = set_color t (parent (node t (parent (node t z)))) RED
              in insertFixup fix t (parent (node t (parent (node t z)))))
           else
             (let inner = (z = left (node t (parent (node t z))));
                  z = (if inner then parent (node t z) else z);
                  t = (if inner then rightRotate fix t z else t);
                  t = set_color t (parent (node t z)) BLACK;
                  t = set_color t (parent (node t (parent (node t z)))) RED;
                  t = leftRotate fix t (parent (node t (parent (node t z))))
              in insertFixup fix t z)))
     else Some (set_color t (root t) BLACK))"

declare insertFixup.simps [code]

definition transplant ::
  "('a RBNode_scheme) Tree \<Rightarrow> nat \<Rightarrow> nat \<Rightarrow> ('a RBNode_scheme) Tree" where
  "transplant t u v =
    (let t = (if parent (node t u) = nil then t\<lparr>root := v\<rparr>
              else if u = left (node t (parent (node t u))) then set_left t (parent (node t u)) v
              else set_right t (parent (node t u)) v)
     in set_parent t v (parent (node t u)))"

partial_function (option) minimum :: "('a RBNode_scheme) Tree \<Rightarrow> nat \<Rightarrow> nat option" where
  "minimum t x = (if left (node t x) \<noteq> nil then minimum t (left (node t x)) else Some x)"

declare minimum.simps [code]

partial_function (option) deleteFixup ::
  "(('a RBNode_scheme) Tree \<Rightarrow> nat \<Rightarrow> nat \<Rightarrow> ('a RBNode_scheme) Tree) \<Rightarrow>
   ('a RBNode_scheme) Tree \<Rightarrow> nat \<Rightarrow> ('a RBNode_scheme) Tree option" where
  "deleteFixup fix t x =
    (if x \<noteq> root t \<and> color (node t x) = BLACK then
       (if x = left (node t (parent (node t x))) then
          (let w = right (node t (parent (node t x)));
               red = (color (node t w) = RED);
               t = (if red then
                      (let t = set_color t w BLACK;
                           t = set_color t (parent (node t x)) RED
                       in leftRotate fix t (parent (node t x)))
                    else t);
               w = (if red then right (node t (parent (node t x))) else w)
           in if color (node t (left (node t w))) = BLACK \<and> color (node t (right (node t w))) = BLACK then
                (let t = set_color t w RED in deleteFixup fix t (parent (node t x)))
              else
                (let far = (color (node t (right (node t w))) = BLACK);
                     t = (if far then
                            (let t = set_color t (left (node t w)) BLACK;
                                 t = set_color t w RED
                             in rightRotate fix t w)
                          else t);
                     w = (if far then right (node t (parent (node t x))) else w);
                     t = set_color t w (color (node t (parent (node t x))));
                     t = set_color t (parent (node t x)) BLACK;
                     t = set_color t (right (node t w)) BLACK;
                     t = leftRotate fix t (parent (node t x))
                 in deleteFixup fix t (root t)))
        else
          (let w = left (node t (parent (node t x)));
               red = (color (node t w) = RED);
               t = (if red then
                      (let t = set_color t w BLACK;
                           t = set_color t (parent (node t x)) RED
                       in rightRotate fix t (parent (node t x)))
                    else t);
               w = (if red then left (node t (parent (node t x))) else w)
           in if color (node t (right (node t w))) = BLACK \<and> color (node t (left (node t w))) = BLACK then
                (let t = set_color t w RED in deleteFixup fix t (parent (node t x)))
              else
                (let far = (color (node t (left (node t w))) = BLACK);
                     t = (if far then
                            (let t = set_color t (right (node t w)) BLACK;
                                 t = set_color t w RED
                             in leftRotate fix t w)
                          else t);
                     w = (if far then left (node t (parent (node t x))) else w);
                     t = set_color t w (color (node t (parent (node t x))));
                     t = set_color t (parent (node t x)) BLACK;
                     t = set_color t (left (node t w)) BLACK;
                     t = rightRotate fix t (parent (node t x))
                 in deleteFixup fix t (root t))))
     else Some (set_color t x BLACK))"

declare deleteFixup.simps [code]


section \<open>The order-statistic tree (ost.h)\<close>

text \<open>
  \<open>OSTNode<T>\<close> at \<open>T = int\<close>, the instance the repository uses. C++ \<open>int\<close> values are
  integers here; the subtree sizes stay between 0 and the number of nodes, and the one
  place where an argument of the caller can push an \<open>int\<close> out of its 32 bits
  (\<open>generateOST\<close>) writes the wrap-around out.
\<close>

record OSTNode = RBNode +
  key :: int
  size_n :: int

type_synonym OST = "OSTNode Tree"

datatype error = out_of_range | division_by_zero | length_error

definition set_size :: "OST \<Rightarrow> nat \<Rightarrow> int \<Rightarrow> OST" where
  "set_size t p s = upd t p (\<lambda>n. n\<lparr>size_n := s\<rparr>)"

definition getSize :: "OST \<Rightarrow> nat \<Rightarrow> int" where
  "getSize t p = (if p = nil then 0 else size_n (node t p))"

text \<open>The closing statements of \<open>leftRotate\<close> and \<open>rightRotate\<close> (ost.h 59-61, 85-87).\<close>

definition ost_fix :: "OST \<Rightarrow> nat \<Rightarrow> nat \<Rightarrow> OST" where
  "ost_fix t d u =
    (let t = set_size t u (size_n (node t d))
     in set_size t d (getSize t (left (node t d)) + getSize t (right (node t d)) + 1))"

text \<open>The constructor: the sentinel, black, of size 0, its links to itself; the root is nil.\<close>

definition ost_new :: OST where
  "ost_new = \<lparr>root = nil,
              heap = [\<lparr>color = BLACK, left = nil, right = nil, parent = nil, key = 0, size_n = 0\<rparr>]\<rparr>"

partial_function (option) ost_insert_loop :: "OST \<Rightarrow> nat \<Rightarrow> nat \<Rightarrow> nat \<Rightarrow> (OST \<times> nat) option" where
  "ost_insert_loop t z y x =
    (if x \<noteq> nil then
       (let y = x;
            t = set_size t x (size_n (node t x) + 1)
        in if key (node t z) < key (node t x) then ost_insert_loop t z y (left (node t x))
           else ost_insert_loop t z y (right (node t x)))
     else Some (t, y))"

declare ost_insert_loop.simps [code]

definition ost_insert :: "OST \<Rightarrow> int \<Rightarrow> OST option" where
  "ost_insert t k =
    (let z = fresh t;
         t = alloc t \<lparr>color = RED, left = nil, right = nil, parent = nil, key = k, size_n = 1\<rparr>
     in do {
       r \<leftarrow> ost_insert_loop t z nil (root t);
       let t = fst r;
           y = snd r;
           t = set_parent t z y;
           t = (if y = nil then t\<lparr>root := z\<rparr>
                else if key (node t z) < key (node t y) then set_left t y z
                else set_right t y z);
           t = set_color t z RED
       in insertFixup ost_fix t z
     })"

partial_function (option) ost_search :: "OST \<Rightarrow> nat \<Rightarrow> int \<Rightarrow> nat option" where
  "ost_search t x k =
    (if x \<noteq> nil \<and> k \<noteq> key (node t x) then
       (if k < key (node t x) then ost_search t (left (node t x)) k
        else ost_search t (right (node t x)) k)
     else Some x)"

declare ost_search.simps [code]

text \<open>The two loops of \<open>remove\<close> that decrement sizes: from \<open>p\<close> up to \<open>stop\<close>, exclusive.\<close>

partial_function (option) ost_dec_loop :: "OST \<Rightarrow> nat \<Rightarrow> nat \<Rightarrow> OST option" where
  "ost_dec_loop t p stop =
    (if p \<noteq> stop then
       ost_dec_loop (set_size t p (size_n (node t p) - 1)) (parent (node t p)) stop
     else Some t)"

declare ost_dec_loop.simps [code]

definition ost_remove :: "OST \<Rightarrow> int \<Rightarrow> OST option" where
  "ost_remove t k = do {
     z \<leftarrow> ost_search t (root t) k;
     if z = nil then Some t
     else do {
       t \<leftarrow> ost_dec_loop t z nil;
       r \<leftarrow>
         (if left (node t z) = nil then
            Some (transplant t z (right (node t z)), right (node t z), color (node t z))
          else if right (node t z) = nil then
            Some (transplant t z (left (node t z)), left (node t z), color (node t z))
          else do {
            y \<leftarrow> minimum t (right (node t z));
            let yOriginalColor = color (node t y);
                x = right (node t y)
            in do {
              t \<leftarrow> (if parent (node t y) = z then Some (set_parent t x y)
                     else do {
                       t \<leftarrow> ost_dec_loop t (parent (node t y)) z;
                       let t = transplant t y (right (node t y));
                           t = set_right t y (right (node t z))
                       in Some (set_parent t (right (node t y)) y)
                     });
              let t = transplant t z y;
                  t = set_left t y (left (node t z));
                  t = set_parent t (left (node t y)) y;
                  t = set_color t y (color (node t z));
                  t = set_size t y (getSize t (left (node t y)) + getSize t (right (node t y)) + 1)
              in Some (t, x, yOriginalColor)
            }
          });
       let t = fst r;
           x = fst (snd r);
           yOriginalColor = snd (snd r)
       in if yOriginalColor = BLACK then deleteFixup ost_fix t x else Some t
     }
   }"

partial_function (option) ost_selectNode :: "OST \<Rightarrow> nat \<Rightarrow> int \<Rightarrow> nat option" where
  "ost_selectNode t x k =
    (if x = nil then Some nil
     else
       (let r = getSize t (left (node t x)) + 1
        in if k = r then Some x
           else if k < r then ost_selectNode t (left (node t x)) k
           else ost_selectNode t (right (node t x)) (k - r)))"

declare ost_selectNode.simps [code]

text \<open>
  \<open>select\<close> returns the tree with its result, so that what it does to the tree can be
  stated; the \<open>throw\<close> is the left injection.
\<close>

definition ost_select :: "OST \<Rightarrow> int \<Rightarrow> (OST \<times> (error + int)) option" where
  "ost_select t k = do {
     n \<leftarrow> ost_selectNode t (root t) k;
     if n = nil then Some (t, Inl out_of_range) else Some (t, Inr (key (node t n)))
   }"

partial_function (option) ost_rank_loop :: "OST \<Rightarrow> nat \<Rightarrow> int \<Rightarrow> int option" where
  "ost_rank_loop t y r =
    (if y \<noteq> root t then
       ost_rank_loop t (parent (node t y))
         (if y = right (node t (parent (node t y)))
          then r + (getSize t (left (node t (parent (node t y)))) + 1) else r)
     else Some r)"

declare ost_rank_loop.simps [code]

definition ost_rank :: "OST \<Rightarrow> int \<Rightarrow> int option" where
  "ost_rank t k = do {
     x \<leftarrow> ost_search t (root t) k;
     if x = nil then Some (- 1)
     else ost_rank_loop t x (getSize t (left (node t x)) + 1)
   }"

definition ost_size :: "OST \<Rightarrow> int" where
  "ost_size t = getSize t (root t)"

definition ost_empty :: "OST \<Rightarrow> bool" where
  "ost_empty t = (root t = nil)"

section \<open>The Josephus permutation (josephus.h)\<close>

text \<open>
  \<open>int32\<close> is the value a 32-bit two's complement \<open>int\<close> holds after an addition or a
  subtraction whose exact result is \<open>x\<close>; \<open>cpp_rem\<close> is the \<open>%\<close> of C++, which truncates
  towards zero.
\<close>

definition int32 :: "int \<Rightarrow> int" where
  "int32 x = (x + 2147483648) mod 4294967296 - 2147483648"

definition cpp_rem :: "int \<Rightarrow> int \<Rightarrow> int" where
  "cpp_rem a b = sgn a * (\<bar>a\<bar> mod \<bar>b\<bar>)"

partial_function (option) generateOST_init :: "OST \<Rightarrow> int \<Rightarrow> int \<Rightarrow> OST option" where
  "generateOST_init ost i n =
    (if i < n then do { ost \<leftarrow> ost_insert ost i; generateOST_init ost (i + 1) n }
     else Some ost)"

declare generateOST_init.simps [code]

partial_function (option) generateOST_loop ::
  "OST \<Rightarrow> int \<Rightarrow> int \<Rightarrow> int list \<Rightarrow> (error + int list) option" where
  "generateOST_loop ost m current result =
    (if \<not> ost_empty ost then
       (if ost_size ost = 0 then Some (Inl division_by_zero)
        else
          (let current = cpp_rem (int32 (int32 (current + m) - 1)) (ost_size ost) in
           do {
             r \<leftarrow> ost_select ost (current + 1);
             let ost = fst r in
             case snd r of
               Inl e \<Rightarrow> Some (Inl e)
             | Inr eliminated \<Rightarrow>
                 do {
                   ost \<leftarrow> ost_remove ost eliminated;
                   let result = result @ [eliminated] in
                   if \<not> ost_empty ost then
                     (if ost_size ost = 0 then Some (Inl division_by_zero)
                      else generateOST_loop ost m (cpp_rem current (ost_size ost)) result)
                   else generateOST_loop ost m current result
                 }
           }))
     else Some (Inr result))"

declare generateOST_loop.simps [code]

definition generateOST :: "int \<Rightarrow> int \<Rightarrow> (error + int list) option" where
  "generateOST n m =
    do {
      ost \<leftarrow> generateOST_init ost_new 0 n;
      generateOST_loop ost m 0 []
    }"

text \<open>The three loops of \<open>generateNaive\<close>: the count of \<open>m\<close> alive people, the move to the
  next alive person, and the elimination loop around them.\<close>

partial_function (option) generateNaive_count ::
  "bool list \<Rightarrow> int \<Rightarrow> int \<Rightarrow> int \<Rightarrow> int \<Rightarrow> int option" where
  "generateNaive_count alive n m count current =
    (if count < m then
       (if alive ! nat current then
          (if count + 1 = m then Some current
           else generateNaive_count alive n m (count + 1) (cpp_rem (current + 1) n))
        else generateNaive_count alive n m count (cpp_rem (current + 1) n))
     else Some current)"

declare generateNaive_count.simps [code]

partial_function (option) generateNaive_next :: "bool list \<Rightarrow> int \<Rightarrow> int \<Rightarrow> int option" where
  "generateNaive_next alive n current =
    (if \<not> alive ! nat current then generateNaive_next alive n (cpp_rem (current + 1) n)
     else Some current)"

declare generateNaive_next.simps [code]

partial_function (option) generateNaive_loop ::
  "bool list \<Rightarrow> int \<Rightarrow> int \<Rightarrow> int \<Rightarrow> int \<Rightarrow> int list \<Rightarrow> int list option" where
  "generateNaive_loop alive n m current remaining result =
    (if remaining > 0 then do {
       current \<leftarrow> generateNaive_count alive n m 0 current;
       let alive = alive[nat current := False];
           result = result @ [current];
           remaining = remaining - 1
       in if remaining > 0 then do {
            current \<leftarrow> generateNaive_next alive n (cpp_rem (current + 1) n);
            generateNaive_loop alive n m current remaining result
          }
          else generateNaive_loop alive n m current remaining result
     }
     else Some result)"

declare generateNaive_loop.simps [code]

definition generateNaive :: "int \<Rightarrow> int \<Rightarrow> (error + int list) option" where
  "generateNaive n m =
    (if n < 0 then Some (Inl length_error)
     else map_option Inr (generateNaive_loop (replicate (nat n) True) n m 0 n []))"

definition verify :: "int \<Rightarrow> int \<Rightarrow> bool option" where
  "verify n m = do {
     resultOST \<leftarrow> generateOST n m;
     resultNaive \<leftarrow> generateNaive n m;
     Some (resultOST = resultNaive)
   }"


section \<open>The interval tree (pom.h)\<close>

text \<open>
  \<open>Interval\<close> and \<open>AugmentedData\<close>; the field names \<open>end\<close>, \<open>value\<close> and \<open>sum\<close> carry a
  prefix. \<open>long long\<close> values are integers: a summary adds at most one 32-bit value per
  node. \<open>operator<\<close> compares the starts.
\<close>

record Interval =
  i_start :: int
  i_end :: int
  i_value :: int

record AugmentedData =
  d_sum :: int
  maxpref :: int
  argmax :: int

definition LLONG_MIN :: int where
  "LLONG_MIN = - 9223372036854775808"

definition AugmentedData0 :: AugmentedData where
  "AugmentedData0 = \<lparr>d_sum = 0, maxpref = LLONG_MIN, argmax = - 1\<rparr>"

record POMNode = RBNode +
  interval :: Interval
  data :: AugmentedData

type_synonym POM = "POMNode Tree"

definition interval_less :: "Interval \<Rightarrow> Interval \<Rightarrow> bool" where
  "interval_less a b = (i_start a < i_start b)"

definition set_sum :: "POM \<Rightarrow> nat \<Rightarrow> int \<Rightarrow> POM" where
  "set_sum t p v = upd t p (\<lambda>n. n\<lparr>data := (data n)\<lparr>d_sum := v\<rparr>\<rparr>)"

definition set_maxpref :: "POM \<Rightarrow> nat \<Rightarrow> int \<Rightarrow> POM" where
  "set_maxpref t p v = upd t p (\<lambda>n. n\<lparr>data := (data n)\<lparr>maxpref := v\<rparr>\<rparr>)"

definition set_argmax :: "POM \<Rightarrow> nat \<Rightarrow> int \<Rightarrow> POM" where
  "set_argmax t p v = upd t p (\<lambda>n. n\<lparr>data := (data n)\<lparr>argmax := v\<rparr>\<rparr>)"

text \<open>The constructor of \<open>POMNode\<close> (pom.h 53-58), with the links the caller sets.\<close>

definition POMNode_new :: "Interval \<Rightarrow> POMNode" where
  "POMNode_new iv =
    \<lparr>color = RED, left = nil, right = nil, parent = nil, interval = iv,
     data = \<lparr>d_sum = i_value iv, maxpref = i_value iv, argmax = i_start iv\<rparr>\<rparr>"

definition pom_new :: POM where
  "pom_new = \<lparr>root = nil,
              heap = [\<lparr>color = BLACK, left = nil, right = nil, parent = nil,
                       interval = \<lparr>i_start = 0, i_end = 0, i_value = 0\<rparr>,
                       data = AugmentedData0\<rparr>]\<rparr>"

definition updateAugmentedData :: "POM \<Rightarrow> nat \<Rightarrow> POM" where
  "updateAugmentedData t n =
    (if n = nil then t
     else
       (let t = set_sum t n (i_value (interval (node t n)));
            t = (if left (node t n) \<noteq> nil
                 then set_sum t n (d_sum (data (node t n)) + d_sum (data (node t (left (node t n)))))
                 else t);
            t = (if right (node t n) \<noteq> nil
                 then set_sum t n (d_sum (data (node t n)) + d_sum (data (node t (right (node t n)))))
                 else t);
            leftSum = (if left (node t n) \<noteq> nil then d_sum (data (node t (left (node t n)))) else 0);
            leftMaxPref = (if left (node t n) \<noteq> nil then maxpref (data (node t (left (node t n))))
                           else LLONG_MIN);
            rightMaxPref = (if right (node t n) \<noteq> nil then maxpref (data (node t (right (node t n))))
                            else LLONG_MIN);
            t = set_maxpref t n leftMaxPref;
            t = set_argmax t n (if left (node t n) \<noteq> nil then argmax (data (node t (left (node t n))))
                                else - 1);
            prefixAtNode = leftSum + i_value (interval (node t n));
            t = (if prefixAtNode > maxpref (data (node t n))
                 then set_argmax (set_maxpref t n prefixAtNode) n (i_start (interval (node t n)))
                 else t);
            t = (if right (node t n) \<noteq> nil \<and> prefixAtNode + rightMaxPref > maxpref (data (node t n))
                 then set_argmax (set_maxpref t n (prefixAtNode + rightMaxPref)) n
                        (argmax (data (node t (right (node t n)))))
                 else t)
        in t))"

text \<open>The closing statements of \<open>leftRotate\<close> and \<open>rightRotate\<close> (pom.h 87-88, 112-113).\<close>

definition pom_fix :: "POM \<Rightarrow> nat \<Rightarrow> nat \<Rightarrow> POM" where
  "pom_fix t d u = updateAugmentedData (updateAugmentedData t d) u"

partial_function (option) pom_search :: "POM \<Rightarrow> nat \<Rightarrow> Interval \<Rightarrow> nat option" where
  "pom_search t x iv =
    (if x \<noteq> nil \<and> \<not> (i_start iv = i_start (interval (node t x)) \<and>
                        i_end iv = i_end (interval (node t x))) then
       (if interval_less iv (interval (node t x)) then pom_search t (left (node t x)) iv
        else pom_search t (right (node t x)) iv)
     else Some x)"

declare pom_search.simps [code]

partial_function (option) updateAncestors :: "POM \<Rightarrow> nat \<Rightarrow> POM option" where
  "updateAncestors t n =
    (if n \<noteq> nil then updateAncestors (updateAugmentedData t n) (parent (node t n))
     else Some t)"

declare updateAncestors.simps [code]

partial_function (option) pom_insert_loop :: "POM \<Rightarrow> nat \<Rightarrow> nat \<Rightarrow> nat \<Rightarrow> nat option" where
  "pom_insert_loop t z y x =
    (if x \<noteq> nil then
       (if interval_less (interval (node t z)) (interval (node t x))
        then pom_insert_loop t z x (left (node t x))
        else pom_insert_loop t z x (right (node t x)))
     else Some y)"

declare pom_insert_loop.simps [code]

definition pom_insert :: "POM \<Rightarrow> Interval \<Rightarrow> POM option" where
  "pom_insert t iv =
    (let z = fresh t;
         t = alloc t (POMNode_new iv)
     in do {
       y \<leftarrow> pom_insert_loop t z nil (root t);
       let t = set_parent t z y;
           t = (if y = nil then t\<lparr>root := z\<rparr>
                else if interval_less (interval (node t z)) (interval (node t y)) then set_left t y z
                else set_right t y z);
           t = set_color t z RED
       in do {
         t \<leftarrow> insertFixup pom_fix t z;
         updateAncestors t z
       }
     })"

text \<open>
  \<open>remove\<close>: the branches hand on the tree, \<open>x\<close>, \<open>yOriginalColor\<close> and \<open>updateStart\<close>,
  in this order.
\<close>

definition pom_remove :: "POM \<Rightarrow> Interval \<Rightarrow> POM option" where
  "pom_remove t iv = do {
     z \<leftarrow> pom_search t (root t) iv;
     if z = nil then Some t
     else do {
       r \<leftarrow>
         (if left (node t z) = nil then
            Some (transplant t z (right (node t z)), right (node t z), color (node t z),
                  parent (node t z))
          else if right (node t z) = nil then
            Some (transplant t z (left (node t z)), left (node t z), color (node t z),
                  parent (node t z))
          else do {
            y \<leftarrow> minimum t (right (node t z));
            let yOriginalColor = color (node t y);
                x = right (node t y);
                direct = (parent (node t y) = z);
                updateStart = (if direct then y else parent (node t y));
                t = (if direct then set_parent t x y
                     else
                       (let t = transplant t y (right (node t y));
                            t = set_right t y (right (node t z))
                        in set_parent t (right (node t y)) y));
                t = transplant t z y;
                t = set_left t y (left (node t z));
                t = set_parent t (left (node t y)) y;
                t = set_color t y (color (node t z))
            in Some (t, x, yOriginalColor, updateStart)
          });
       let t = fst r;
           x = fst (snd r);
           yOriginalColor = fst (snd (snd r));
           updateStart = snd (snd (snd r))
       in do {
         t \<leftarrow> (if yOriginalColor = BLACK then deleteFixup pom_fix t x else Some t);
         updateAncestors t updateStart
       }
     }
   }"

definition findPOM :: "POM \<Rightarrow> AugmentedData" where
  "findPOM t = (if root t = nil then AugmentedData0 else data (node t (root t)))"

definition getSum :: "POM \<Rightarrow> int" where
  "getSum t = (if root t = nil then 0 else d_sum (data (node t (root t))))"

definition pom_empty :: "POM \<Rightarrow> bool" where
  "pom_empty t = (root t = nil)"

text \<open>A sequence of calls on one tree, for both classes.\<close>

datatype ost_op = OInsert int | ORemove int

fun ost_apply :: "OST \<Rightarrow> ost_op \<Rightarrow> OST option" where
  "ost_apply t (OInsert k) = ost_insert t k"
| "ost_apply t (ORemove k) = ost_remove t k"

fun ost_run :: "OST \<Rightarrow> ost_op list \<Rightarrow> OST option" where
  "ost_run t [] = Some t"
| "ost_run t (c # cs) = do { t \<leftarrow> ost_apply t c; ost_run t cs }"

datatype pom_op = PInsert Interval | PRemove Interval

fun pom_apply :: "POM \<Rightarrow> pom_op \<Rightarrow> POM option" where
  "pom_apply t (PInsert iv) = pom_insert t iv"
| "pom_apply t (PRemove iv) = pom_remove t iv"

fun pom_run :: "POM \<Rightarrow> pom_op list \<Rightarrow> POM option" where
  "pom_run t [] = Some t"
| "pom_run t (c # cs) = do { t \<leftarrow> pom_apply t c; pom_run t cs }"


section \<open>What the claims speak about\<close>

text \<open>
  The maximum prefix sum in the words of the specification: the running sums of the values
  in in-order sequence, their maximum, and the start of the leftmost interval whose
  running sum is that maximum. An empty sequence has the summary of the empty tree.
\<close>

definition prefix_sums :: "int list \<Rightarrow> int list" where
  "prefix_sums vs = map (\<lambda>k. sum_list (take k vs)) [1..<Suc (length vs)]"

definition spec_maxpref :: "Interval list \<Rightarrow> int" where
  "spec_maxpref ivs = (if ivs = [] then LLONG_MIN else Max (set (prefix_sums (map i_value ivs))))"

definition spec_argmax :: "Interval list \<Rightarrow> int" where
  "spec_argmax ivs =
    (if ivs = [] then - 1
     else i_start (ivs ! length (takeWhile (\<lambda>p. p \<noteq> spec_maxpref ivs) (prefix_sums (map i_value ivs)))))"

section \<open>Evaluation of the model on concrete inputs\<close>

lemma bind_weak_cong: "m = m' \<Longrightarrow> Option.bind m f = Option.bind m' f"
  by simp

lemma let_weak_cong: "a = b \<Longrightarrow> Let a f = Let b f"
  by simp

lemma list_update_numeral: "(x # xs)[numeral k := y] = x # xs[pred_numeral k := y]"
  by (simp add: numeral_eq_Suc)

lemmas eval_cong = bind_weak_cong let_weak_cong option.case_cong_weak sum.case_cong_weak

lemmas eval_rb = node_def upd_def set_color_def set_left_def set_right_def set_parent_def
  alloc_def fresh_def leftRotate_def rightRotate_def insertFixup.simps transplant_def
  minimum.simps deleteFixup.simps Let_def list_update_numeral

lemmas eval_ost = eval_rb set_size_def getSize_def ost_fix_def ost_new_def ost_insert_loop.simps
  ost_insert_def ost_search.simps ost_dec_loop.simps ost_remove_def ost_selectNode.simps
  ost_select_def ost_rank_loop.simps ost_rank_def ost_size_def ost_empty_def

lemmas eval_josephus = eval_ost int32_def cpp_rem_def generateOST_init.simps
  generateOST_loop.simps generateOST_def generateNaive_count.simps generateNaive_next.simps
  generateNaive_loop.simps generateNaive_def

lemmas eval_pom = eval_rb LLONG_MIN_def AugmentedData0_def interval_less_def set_sum_def
  set_maxpref_def set_argmax_def POMNode_new_def pom_new_def updateAugmentedData_def pom_fix_def
  pom_search.simps updateAncestors.simps pom_insert_loop.simps pom_insert_def pom_remove_def
  findPOM_def getSum_def pom_empty_def

subsection \<open>The elimination sequences of both generators\<close>

lemma generateOST_7_2: "generateOST 7 2 = Some (Inr [1, 3, 5, 0, 4, 2, 6])"
  by (simp add: eval_josephus cong: eval_cong)

lemma generateNaive_7_2: "generateNaive 7 2 = Some (Inr [1, 3, 5, 0, 4, 2, 6])"
  by (simp add: eval_josephus cong: eval_cong)

lemma generateOST_7_3: "generateOST 7 3 = Some (Inr [2, 5, 1, 6, 4, 0, 3])"
  by (simp add: eval_josephus cong: eval_cong)

lemma generateNaive_7_3: "generateNaive 7 3 = Some (Inr [2, 5, 1, 6, 4, 0, 3])"
  by (simp add: eval_josephus cong: eval_cong)

lemma generateOST_7_4: "generateOST 7 4 = Some (Inr [3, 0, 5, 4, 6, 2, 1])"
  by (simp add: eval_josephus cong: eval_cong)

lemma generateNaive_7_4: "generateNaive 7 4 = Some (Inr [3, 0, 5, 4, 6, 2, 1])"
  by (simp add: eval_josephus cong: eval_cong)

lemma generateOST_7_5: "generateOST 7 5 = Some (Inr [4, 2, 1, 3, 6, 0, 5])"
  by (simp add: eval_josephus cong: eval_cong)

lemma generateNaive_7_5: "generateNaive 7 5 = Some (Inr [4, 2, 1, 3, 6, 0, 5])"
  by (simp add: eval_josephus cong: eval_cong)

lemma generateOST_10_2: "generateOST 10 2 = Some (Inr [1, 3, 5, 7, 9, 2, 6, 0, 8, 4])"
  by (simp add: eval_josephus cong: eval_cong)

lemma generateNaive_10_2: "generateNaive 10 2 = Some (Inr [1, 3, 5, 7, 9, 2, 6, 0, 8, 4])"
  by (simp add: eval_josephus cong: eval_cong)

lemma generateOST_10_3: "generateOST 10 3 = Some (Inr [2, 5, 8, 1, 6, 0, 7, 4, 9, 3])"
  by (simp add: eval_josephus cong: eval_cong)

lemma generateNaive_10_3: "generateNaive 10 3 = Some (Inr [2, 5, 8, 1, 6, 0, 7, 4, 9, 3])"
  by (simp add: eval_josephus cong: eval_cong)

lemma generateOST_10_4: "generateOST 10 4 = Some (Inr [3, 7, 1, 6, 2, 9, 8, 0, 5, 4])"
  by (simp add: eval_josephus cong: eval_cong)

lemma generateNaive_10_4: "generateNaive 10 4 = Some (Inr [3, 7, 1, 6, 2, 9, 8, 0, 5, 4])"
  by (simp add: eval_josephus cong: eval_cong)

lemma generateOST_10_5: "generateOST 10 5 = Some (Inr [4, 9, 5, 1, 8, 7, 0, 3, 6, 2])"
  by (simp add: eval_josephus cong: eval_cong)

lemma generateNaive_10_5: "generateNaive 10 5 = Some (Inr [4, 9, 5, 1, 8, 7, 0, 3, 6, 2])"
  by (simp add: eval_josephus cong: eval_cong)

lemma generateOST_12_2: "generateOST 12 2 = Some (Inr [1, 3, 5, 7, 9, 11, 2, 6, 10, 4, 0, 8])"
  by (simp add: eval_josephus cong: eval_cong)

lemma generateNaive_12_2: "generateNaive 12 2 = Some (Inr [1, 3, 5, 7, 9, 11, 2, 6, 10, 4, 0, 8])"
  by (simp add: eval_josephus cong: eval_cong)

lemma generateOST_12_3: "generateOST 12 3 = Some (Inr [2, 5, 8, 11, 3, 7, 0, 6, 1, 10, 4, 9])"
  by (simp add: eval_josephus cong: eval_cong)

lemma generateNaive_12_3: "generateNaive 12 3 = Some (Inr [2, 5, 8, 11, 3, 7, 0, 6, 1, 10, 4, 9])"
  by (simp add: eval_josephus cong: eval_cong)

lemma generateOST_12_4: "generateOST 12 4 = Some (Inr [3, 7, 11, 4, 9, 2, 10, 6, 5, 8, 1, 0])"
  by (simp add: eval_josephus cong: eval_cong)

lemma generateNaive_12_4: "generateNaive 12 4 = Some (Inr [3, 7, 11, 4, 9, 2, 10, 6, 5, 8, 1, 0])"
  by (simp add: eval_josephus cong: eval_cong)

lemma generateOST_12_5: "generateOST 12 5 = Some (Inr [4, 9, 2, 8, 3, 11, 7, 6, 10, 1, 5, 0])"
  by (simp add: eval_josephus cong: eval_cong)

lemma generateNaive_12_5: "generateNaive 12 5 = Some (Inr [4, 9, 2, 8, 3, 11, 7, 6, 10, 1, 5, 0])"
  by (simp add: eval_josephus cong: eval_cong)

lemma generateOST_15_2: "generateOST 15 2 = Some (Inr [1, 3, 5, 7, 9, 11, 13, 0, 4, 8, 12, 2, 10, 6, 14])"
  by (simp add: eval_josephus cong: eval_cong)

lemma generateNaive_15_2: "generateNaive 15 2 = Some (Inr [1, 3, 5, 7, 9, 11, 13, 0, 4, 8, 12, 2, 10, 6, 14])"
  by (simp add: eval_josephus cong: eval_cong)

lemma generateOST_15_3: "generateOST 15 3 = Some (Inr [2, 5, 8, 11, 14, 3, 7, 12, 1, 9, 0, 10, 6, 13, 4])"
  by (simp add: eval_josephus cong: eval_cong)

lemma generateNaive_15_3: "generateNaive 15 3 = Some (Inr [2, 5, 8, 11, 14, 3, 7, 12, 1, 9, 0, 10, 6, 13, 4])"
  by (simp add: eval_josephus cong: eval_cong)

lemma generateOST_15_4: "generateOST 15 4 = Some (Inr [3, 7, 11, 0, 5, 10, 1, 8, 14, 9, 4, 2, 6, 13, 12])"
  by (simp add: eval_josephus cong: eval_cong)

lemma generateNaive_15_4: "generateNaive 15 4 = Some (Inr [3, 7, 11, 0, 5, 10, 1, 8, 14, 9, 4, 2, 6, 13, 12])"
  by (simp add: eval_josephus cong: eval_cong)

lemma generateOST_15_5: "generateOST 15 5 = Some (Inr [4, 9, 14, 5, 11, 2, 10, 3, 13, 8, 7, 12, 1, 6, 0])"
  by (simp add: eval_josephus cong: eval_cong)

lemma generateNaive_15_5: "generateNaive 15 5 = Some (Inr [4, 9, 14, 5, 11, 2, 10, 3, 13, 8, 7, 12, 1, 6, 0])"
  by (simp add: eval_josephus cong: eval_cong)

lemmas generateOST_values = generateOST_7_2 generateOST_7_3 generateOST_7_4 generateOST_7_5 generateOST_10_2 generateOST_10_3 generateOST_10_4 generateOST_10_5 generateOST_12_2 generateOST_12_3 generateOST_12_4 generateOST_12_5 generateOST_15_2 generateOST_15_3 generateOST_15_4 generateOST_15_5

lemmas generateNaive_values = generateNaive_7_2 generateNaive_7_3 generateNaive_7_4 generateNaive_7_5 generateNaive_10_2 generateNaive_10_3 generateNaive_10_4 generateNaive_10_5 generateNaive_12_2 generateNaive_12_3 generateNaive_12_4 generateNaive_12_5 generateNaive_15_2 generateNaive_15_3 generateNaive_15_4 generateNaive_15_5

text \<open>
  Claim C1, as the code has it. For every \<open>n\<close> in \<open>{7, 10, 12, 15}\<close> and every \<open>m\<close> in
  \<open>{2, 3, 4, 5}\<close>, \<open>generateOST n m\<close> and \<open>generateNaive n m\<close> return, and return the same
  elimination sequence; for \<open>n = 7\<close>, \<open>m = 3\<close> that sequence is \<open>[2, 5, 1, 6, 4, 0, 3]\<close>.
\<close>

theorem C1_generators_agree:
  "(\<forall>n \<in> {7, 10, 12, 15}. \<forall>m \<in> {2, 3, 4, 5}.
      \<exists>r. generateOST n m = Some (Inr r) \<and> generateNaive n m = Some (Inr r) \<and>
          verify n m = Some True) \<and>
   generateOST 7 3 = Some (Inr [2, 5, 1, 6, 4, 0, 3]) \<and>
   generateNaive 7 3 = Some (Inr [2, 5, 1, 6, 4, 0, 3])"
  by (simp add: verify_def generateOST_values generateNaive_values)

theorem C1_generators_agree_witness:
  "(10::int) \<in> {7, 10, 12, 15} \<and> (4::int) \<in> {2, 3, 4, 5} \<and>
   (\<exists>r. generateOST 10 4 = Some (Inr r) \<and> generateNaive 10 4 = Some (Inr r) \<and>
        verify 10 4 = Some True)"
  using C1_generators_agree by simp

text \<open>
  Claim C1, as it is written, names \<open>[2, 5, 1, 6, 3, 0, 4]\<close> as the sequence for \<open>n = 7\<close>,
  \<open>m = 3\<close>: neither generator returns it.
\<close>

theorem C1_counterexample:
  "\<not> (generateOST 7 3 = Some (Inr [2, 5, 1, 6, 3, 0, 4]) \<and>
      generateNaive 7 3 = Some (Inr [2, 5, 1, 6, 3, 0, 4]))"
  by (simp add: generateOST_7_3)

subsection \<open>The interval example\<close>

lemma pom_example_run:
  "pom_run pom_new
     [PInsert \<lparr>i_start = 0, i_end = 5, i_value = 10\<rparr>,
      PInsert \<lparr>i_start = 5, i_end = 10, i_value = - 5\<rparr>,
      PInsert \<lparr>i_start = 10, i_end = 15, i_value = 8\<rparr>,
      PInsert \<lparr>i_start = 15, i_end = 20, i_value = - 3\<rparr>] =
   Some \<lparr>root = 2,
     heap =
       [\<lparr>color = BLACK, left = nil, right = nil, parent = nil,
           interval = \<lparr>i_start = 0, i_end = 0, i_value = 0\<rparr>,
           data = \<lparr>d_sum = 0, maxpref = - 9223372036854775808, argmax = - 1\<rparr>\<rparr>,
        \<lparr>color = BLACK, left = nil, right = nil, parent = 2,
           interval = \<lparr>i_start = 0, i_end = 5, i_value = 10\<rparr>,
           data = \<lparr>d_sum = 10, maxpref = 10, argmax = 0\<rparr>\<rparr>,
        \<lparr>color = BLACK, left = 1, right = 3, parent = nil,
           interval = \<lparr>i_start = 5, i_end = 10, i_value = - 5\<rparr>,
           data = \<lparr>d_sum = 10, maxpref = 13, argmax = 10\<rparr>\<rparr>,
        \<lparr>color = BLACK, left = nil, right = 4, parent = 2,
           interval = \<lparr>i_start = 10, i_end = 15, i_value = 8\<rparr>,
           data = \<lparr>d_sum = 5, maxpref = 8, argmax = 10\<rparr>\<rparr>,
        \<lparr>color = RED, left = nil, right = nil, parent = 3,
           interval = \<lparr>i_start = 15, i_end = 20, i_value = - 3\<rparr>,
           data = \<lparr>d_sum = - 3, maxpref = - 3, argmax = 15\<rparr>\<rparr>]\<rparr>"
  by (simp add: eval_pom cong: eval_cong)

lemma pom_example_spec:
  "spec_maxpref [\<lparr>i_start = 0, i_end = 5, i_value = 10\<rparr>,
                 \<lparr>i_start = 5, i_end = 10, i_value = - 5\<rparr>,
                 \<lparr>i_start = 10, i_end = 15, i_value = 8\<rparr>,
                 \<lparr>i_start = 15, i_end = 20, i_value = - 3\<rparr>] = 13"
  "spec_argmax [\<lparr>i_start = 0, i_end = 5, i_value = 10\<rparr>,
                \<lparr>i_start = 5, i_end = 10, i_value = - 5\<rparr>,
                \<lparr>i_start = 10, i_end = 15, i_value = 8\<rparr>,
                \<lparr>i_start = 15, i_end = 20, i_value = - 3\<rparr>] = 10"
  "prefix_sums [10, - 5, 8, - 3] = [10, 5, 13, 10]"
  by (simp_all add: spec_maxpref_def spec_argmax_def prefix_sums_def upt_rec numeral_eq_Suc)

text \<open>
  Claim C2. The four inserts, in the order of the claim, return a tree whose \<open>getSum\<close> is
  10 and whose \<open>findPOM\<close> has \<open>maxpref = 13\<close> and \<open>argmax = 10\<close>: the maximum of the running
  sums 10, 5, 13, 10 of the values in in-order sequence, and the start of the interval
  that reaches it.
\<close>

theorem C2_interval_example:
  "\<exists>t. pom_run pom_new
          [PInsert \<lparr>i_start = 0, i_end = 5, i_value = 10\<rparr>,
           PInsert \<lparr>i_start = 5, i_end = 10, i_value = - 5\<rparr>,
           PInsert \<lparr>i_start = 10, i_end = 15, i_value = 8\<rparr>,
           PInsert \<lparr>i_start = 15, i_end = 20, i_value = - 3\<rparr>] = Some t \<and>
        getSum t = 10 \<and>
        maxpref (findPOM t) = 13 \<and> argmax (findPOM t) = 10 \<and>
        prefix_sums [10, - 5, 8, - 3] = [10, 5, 13, 10] \<and>
        maxpref (findPOM t) =
          spec_maxpref [\<lparr>i_start = 0, i_end = 5, i_value = 10\<rparr>,
                        \<lparr>i_start = 5, i_end = 10, i_value = - 5\<rparr>,
                        \<lparr>i_start = 10, i_end = 15, i_value = 8\<rparr>,
                        \<lparr>i_start = 15, i_end = 20, i_value = - 3\<rparr>] \<and>
        argmax (findPOM t) =
          spec_argmax [\<lparr>i_start = 0, i_end = 5, i_value = 10\<rparr>,
                       \<lparr>i_start = 5, i_end = 10, i_value = - 5\<rparr>,
                       \<lparr>i_start = 10, i_end = 15, i_value = 8\<rparr>,
                       \<lparr>i_start = 15, i_end = 20, i_value = - 3\<rparr>]"
  unfolding pom_example_run pom_example_spec
  by (simp add: getSum_def findPOM_def node_def)

text \<open>
  Claim C3, at the input where the code leaves it. Three intervals with the same start are
  inserted; the rotation of the third insert puts \<open>[5, 6)\<close> to the left of \<open>[5, 7)\<close>, where
  \<open>search\<close>, which goes right on an equal start, does not look. \<open>remove\<close> of \<open>[5, 6)\<close> then
  returns without removing it, and \<open>getSum\<close> is still 7, not the sum 6 of the two intervals
  that were inserted and not removed.
\<close>

theorem C3_remove_misses_present_interval:
  "\<exists>t. pom_run pom_new
          [PInsert \<lparr>i_start = 5, i_end = 6, i_value = 1\<rparr>,
           PInsert \<lparr>i_start = 5, i_end = 7, i_value = 2\<rparr>,
           PInsert \<lparr>i_start = 5, i_end = 8, i_value = 4\<rparr>,
           PRemove \<lparr>i_start = 5, i_end = 6, i_value = 1\<rparr>] = Some t \<and>
        getSum t = 7 \<and>
        pom_run pom_new
          [PInsert \<lparr>i_start = 5, i_end = 6, i_value = 1\<rparr>,
           PInsert \<lparr>i_start = 5, i_end = 7, i_value = 2\<rparr>,
           PInsert \<lparr>i_start = 5, i_end = 8, i_value = 4\<rparr>] = Some t"
  by (simp add: eval_pom cong: eval_cong)

text \<open>
  Claim C10, at the input where the code leaves it. With \<open>n = 4\<close> and \<open>m = 2147483647\<close> the
  second round computes \<open>current + m - 1\<close> from \<open>current = 2\<close>: the sum does not fit an
  \<open>int\<close>, the wrapped value is negative, so is \<open>current\<close>, and \<open>select\<close> is called out of
  range and throws. \<open>generateNaive\<close> has no such sum.
\<close>

theorem C10_overflow_out_of_range:
  "generateOST 4 2147483647 = Some (Inl out_of_range)"
  by (simp add: eval_josephus cong: eval_cong)

end
